theory Spec2Isabelle
  imports Complex_Main
begin

section \<open>Data model\<close>

text \<open>
  The three tables of \<^verbatim>\<open>init_database\<close> (database.py) and the row classes of models.py.
  The ENUM columns are datatypes; a table is the list of its rows in insertion order.
\<close>

datatype role = Admin | Staff

datatype facility_status = Active | Inactive

datatype booking_status = Pending | Approved | Rejected | Cancelled

text \<open>
  \<^verbatim>\<open>datetime.date\<close> and \<^verbatim>\<open>datetime.time\<close>. The form parses times with the format
  \<^verbatim>\<open>%H:%M\<close>, so seconds and microseconds are always zero and are left out.
\<close>

record date =
  year :: nat
  month :: nat
  day :: nat

record time =
  hour :: nat
  minute :: nat

text \<open>What the \<^verbatim>\<open>%H:%M\<close> parser can produce.\<close>

definition valid_time :: "time \<Rightarrow> bool" where
  "valid_time t \<longleftrightarrow> hour t < 24 \<and> minute t < 60"

text \<open>Python compares dates and times field by field, most significant first.\<close>

definition date_lt :: "date \<Rightarrow> date \<Rightarrow> bool" where
  "date_lt a b \<longleftrightarrow>
     year a < year b \<or>
     (year a = year b \<and> (month a < month b \<or> (month a = month b \<and> day a < day b)))"

definition time_le :: "time \<Rightarrow> time \<Rightarrow> bool" where
  "time_le a b \<longleftrightarrow> hour a < hour b \<or> (hour a = hour b \<and> minute a \<le> minute b)"

definition time_lt :: "time \<Rightarrow> time \<Rightarrow> bool" where
  "time_lt a b \<longleftrightarrow> hour a < hour b \<or> (hour a = hour b \<and> minute a < minute b)"

text \<open>The application clock (\<^verbatim>\<open>date.today()\<close>) and the wall-clock time of day.\<close>

record clock =
  today :: date
  time_of_day :: time

record User =
  usr_id :: nat
  usr_name :: string
  email :: string
  password :: string
  usr_role :: role
  usr_created_at :: "date \<times> time"

record Facility =
  fac_id :: nat
  fac_name :: string
  capacity :: nat
  fac_status :: facility_status
  description :: "string option"
  image :: "string option"
  fac_created_at :: "date \<times> time"

record Booking =
  booking_id :: nat
  user_id :: nat
  facility_id :: nat
  booking_date :: date
  start_time :: time
  end_time :: time
  status :: booking_status
  purpose :: string
  created_at :: "date \<times> time"

text \<open>
  The stored state: the three tables and the AUTO_INCREMENT counter of
  \<^verbatim>\<open>bookings.booking_id\<close>.
\<close>

record database =
  users :: "User list"
  facilities :: "Facility list"
  bookings :: "Booking list"
  bookings_auto_increment :: nat

text \<open>
  The constraints the DDL declares: primary keys are unique, every booking refers to a
  stored user and a stored facility, and the counter is above every identifier in use.
\<close>

definition wf_db :: "database \<Rightarrow> bool" where
  "wf_db db \<longleftrightarrow>
     distinct (map usr_id (users db)) \<and>
     distinct (map fac_id (facilities db)) \<and>
     distinct (map booking_id (bookings db)) \<and>
     (\<forall>b \<in> set (bookings db).
        booking_id b < bookings_auto_increment db \<and>
        (\<exists>u \<in> set (users db). usr_id u = user_id b) \<and>
        (\<exists>f \<in> set (facilities db). fac_id f = facility_id b))"

section \<open>forms.py: BookingForm\<close>

datatype validation_error = ValidationError string

text \<open>
  The submitted form after field processing. A field whose input is missing, empty or
  does not parse has no data (\<^verbatim>\<open>None\<close>). \<^verbatim>\<open>facility_id\<close> is a hidden text field; its
  data is the number the text denotes. \<^verbatim>\<open>csrf_token_ok\<close> is the outcome of the token
  check that every \<^verbatim>\<open>FlaskForm\<close> carries.
\<close>

record BookingForm =
  csrf_token_ok :: bool
  facility_id_data :: "nat option"
  booking_date_data :: "date option"
  start_time_data :: "time option"
  end_time_data :: "time option"
  purpose_data :: string

text \<open>\<^verbatim>\<open>BookingForm.validate_booking_date\<close>\<close>

definition validate_booking_date :: "date \<Rightarrow> date \<Rightarrow> validation_error + unit" where
  "validate_booking_date today_date field_data =
     (if date_lt field_data today_date
      then Inl (ValidationError ''Cannot book for past dates'')
      else Inr ())"

text \<open>
  The difference of two times combined with the same date, in seconds
  (\<^verbatim>\<open>(end_datetime - start_datetime).total_seconds()\<close>).
\<close>

definition total_seconds :: "time \<Rightarrow> time \<Rightarrow> int" where
  "total_seconds start_data field_data =
     (3600 * int (hour field_data) + 60 * int (minute field_data)) -
     (3600 * int (hour start_data) + 60 * int (minute start_data))"

text \<open>
  \<^verbatim>\<open>BookingForm.validate_end_time\<close>. The source divides in floating point; the
  dividend is a whole number of seconds below 86400 and both comparisons are against
  values the division hits exactly (28800 / 3600 and 1800 / 3600), so the comparisons
  come out as in exact arithmetic, which is what is written here.
\<close>

definition validate_end_time :: "time option \<Rightarrow> time \<Rightarrow> validation_error + unit" where
  "validate_end_time start_data field_data =
     (case start_data of
        None \<Rightarrow> Inr ()
      | Some s \<Rightarrow>
          if time_le field_data s
          then Inl (ValidationError ''End time must be after start time'')
          else
            let duration_hours = (of_int (total_seconds s field_data) :: rat) / 3600 in
            if duration_hours > 8
            then Inl (ValidationError ''Maximum booking duration is 8 hours'')
            else if duration_hours < 1 / 2
            then Inl (ValidationError ''Minimum booking duration is 30 minutes'')
            else Inr ())"

text \<open>\<^verbatim>\<open>DataRequired\<close> / \<^verbatim>\<open>InputRequired\<close>: a field without data fails and its chain stops.\<close>

definition required :: "'a option \<Rightarrow> ('a \<Rightarrow> validation_error + unit) \<Rightarrow> validation_error + unit" where
  "required field_data rest =
     (case field_data of
        None \<Rightarrow> Inl (ValidationError ''This field is required.'')
      | Some v \<Rightarrow> rest v)"

text \<open>\<^verbatim>\<open>Length(max=500)\<close> on the purpose.\<close>

definition validate_purpose :: "string \<Rightarrow> validation_error + unit" where
  "validate_purpose field_data =
     (if length field_data > 500
      then Inl (ValidationError ''Field cannot be longer than 500 characters.'')
      else Inr ())"

definition validate_csrf_token :: "bool \<Rightarrow> validation_error + unit" where
  "validate_csrf_token ok =
     (if ok then Inr () else Inl (ValidationError ''The CSRF token is invalid.''))"

text \<open>
  \<^verbatim>\<open>form.errors\<close>: every field runs its own chain (validators of the field, then the
  inline \<^verbatim>\<open>validate_<field>\<close>), and the failing fields are listed with their error.
\<close>

definition field_results :: "date \<Rightarrow> BookingForm \<Rightarrow> (string \<times> (validation_error + unit)) list" where
  "field_results today_date form =
     [(''csrf_token'', validate_csrf_token (csrf_token_ok form)),
      (''facility_id'', required (facility_id_data form) (\<lambda>_. Inr ())),
      (''booking_date'', required (booking_date_data form) (validate_booking_date today_date)),
      (''start_time'', required (start_time_data form) (\<lambda>_. Inr ())),
      (''end_time'', required (end_time_data form) (validate_end_time (start_time_data form))),
      (''purpose'', validate_purpose (purpose_data form))]"

definition form_errors :: "date \<Rightarrow> BookingForm \<Rightarrow> (string \<times> validation_error) list" where
  "form_errors today_date form =
     List.map_filter
       (\<lambda>(field_name, r). case r of Inl e \<Rightarrow> Some (field_name, e) | Inr _ \<Rightarrow> None)
       (field_results today_date form)"

text \<open>\<^verbatim>\<open>form.validate_on_submit()\<close> of a POST request.\<close>

definition validate_on_submit :: "date \<Rightarrow> BookingForm \<Rightarrow> bool" where
  "validate_on_submit today_date form \<longleftrightarrow> form_errors today_date form = []"

section \<open>models.py\<close>

text \<open>
  \<^verbatim>\<open>execute_query\<close> of models.py has no handler: an error of the database server leaves
  the function as an exception. The only such error the modelled statements can meet is
  a foreign key that names no row.
\<close>

datatype db_error = IntegrityError

definition User_get_by_id :: "nat \<Rightarrow> database \<Rightarrow> User option" where
  "User_get_by_id k db = find (\<lambda>u. usr_id u = k) (users db)"

definition is_admin :: "User \<Rightarrow> bool" where
  "is_admin u \<longleftrightarrow> usr_role u = Admin"

definition is_staff :: "User \<Rightarrow> bool" where
  "is_staff u \<longleftrightarrow> usr_role u = Staff"

definition Facility_get_by_id :: "nat \<Rightarrow> database \<Rightarrow> Facility option" where
  "Facility_get_by_id k db = find (\<lambda>f. fac_id f = k) (facilities db)"

text \<open>\<^verbatim>\<open>Facility.has_active_bookings\<close>: the COUNT of the matching rows is positive.\<close>

definition Facility_has_active_bookings :: "nat \<Rightarrow> database \<Rightarrow> bool" where
  "Facility_has_active_bookings k db \<longleftrightarrow>
     length (filter (\<lambda>b. facility_id b = k \<and> (status b = Pending \<or> status b = Approved))
               (bookings db)) > 0"

text \<open>
  \<^verbatim>\<open>Facility.delete\<close>: the DELETE on \<^verbatim>\<open>facilities\<close>, and with it the
  \<^verbatim>\<open>ON DELETE CASCADE\<close> of \<^verbatim>\<open>bookings.facility_id\<close>. The row count returned is
  that of the statement's own table.
\<close>

definition Facility_delete :: "nat \<Rightarrow> database \<Rightarrow> nat \<times> database" where
  "Facility_delete k db =
     (length (filter (\<lambda>f. fac_id f = k) (facilities db)),
      db\<lparr>facilities := filter (\<lambda>f. fac_id f \<noteq> k) (facilities db),
         bookings := filter (\<lambda>b. facility_id b \<noteq> k) (bookings db)\<rparr>)"

text \<open>
  \<^verbatim>\<open>Booking.create\<close>: one INSERT with the status literal \<^verbatim>\<open>'pending'\<close>. The server
  refuses the row when one of its two foreign keys names no row; otherwise the row gets
  the next AUTO_INCREMENT value and the current timestamp, and \<^verbatim>\<open>execute_query\<close>
  returns \<^verbatim>\<open>cursor.rowcount\<close>, which is 1.
\<close>

definition Booking_create ::
  "clock \<Rightarrow> nat \<Rightarrow> nat \<Rightarrow> date \<Rightarrow> time \<Rightarrow> time \<Rightarrow> string \<Rightarrow> database
     \<Rightarrow> db_error + (nat \<times> database)" where
  "Booking_create clk uid fid bdate stime etime purp db =
     (if (\<exists>u \<in> set (users db). usr_id u = uid) \<and> (\<exists>f \<in> set (facilities db). fac_id f = fid)
      then Inr (1,
        db\<lparr>bookings := bookings db @
              [\<lparr>booking_id = bookings_auto_increment db, user_id = uid, facility_id = fid,
                booking_date = bdate, start_time = stime, end_time = etime,
                status = Pending, purpose = purp,
                created_at = (today clk, time_of_day clk)\<rparr>],
           bookings_auto_increment := Suc (bookings_auto_increment db)\<rparr>)
      else Inl IntegrityError)"

text \<open>
  \<^verbatim>\<open>Booking.update_status\<close>: an UPDATE whose WHERE clause names the key only. The row
  count is the number of rows the statement changed.
\<close>

definition Booking_update_status :: "nat \<Rightarrow> booking_status \<Rightarrow> database \<Rightarrow> nat \<times> database" where
  "Booking_update_status k s db =
     (length (filter (\<lambda>b. booking_id b = k \<and> status b \<noteq> s) (bookings db)),
      db\<lparr>bookings := map (\<lambda>b. if booking_id b = k then b\<lparr>status := s\<rparr> else b) (bookings db)\<rparr>)"

text \<open>\<^verbatim>\<open>Booking.cancel\<close>: the WHERE clause names the key, the owner and the status.\<close>

definition Booking_cancel :: "nat \<Rightarrow> nat \<Rightarrow> database \<Rightarrow> nat \<times> database" where
  "Booking_cancel k uid db =
     (length (filter (\<lambda>b. booking_id b = k \<and> user_id b = uid \<and> status b = Pending) (bookings db)),
      db\<lparr>bookings :=
           map (\<lambda>b. if booking_id b = k \<and> user_id b = uid \<and> status b = Pending
                    then b\<lparr>status := Cancelled\<rparr> else b)
               (bookings db)\<rparr>)"

text \<open>The stored row with a given key, as a SELECT by primary key reads it.\<close>

definition Booking_get_by_id :: "nat \<Rightarrow> database \<Rightarrow> Booking option" where
  "Booking_get_by_id k db = find (\<lambda>b. booking_id b = k) (bookings db)"

section \<open>app.py: the routes\<close>

text \<open>
  What a route answers: the redirect to the login page of \<^verbatim>\<open>login_required\<close>,
  \<^verbatim>\<open>abort(403)\<close>, a flashed message with its category and the endpoint redirected to,
  or the failure of an exception nobody caught.
\<close>

datatype response =
  Unauthorized
  | Forbidden
  | Redirect string string string
  | ServerError

text \<open>
  \<^verbatim>\<open>load_user\<close>: the session holds a user id or nothing; a session whose user is not
  stored counts as not logged in.
\<close>

definition load_user :: "nat option \<Rightarrow> database \<Rightarrow> User option" where
  "load_user session db =
     (case session of None \<Rightarrow> None | Some k \<Rightarrow> User_get_by_id k db)"

text \<open>
  \<^verbatim>\<open>create_booking\<close>. After a successful validation every required field has data;
  a field without data would reach the INSERT as NULL, which the NOT NULL columns
  refuse, so that branch fails like any other error of the server.
\<close>

definition create_booking ::
  "clock \<Rightarrow> nat option \<Rightarrow> BookingForm \<Rightarrow> database \<Rightarrow> response \<times> database" where
  "create_booking clk session form db =
     (case load_user session db of
        None \<Rightarrow> (Unauthorized, db)
      | Some current_user \<Rightarrow>
          if \<not> is_staff current_user then (Forbidden, db)
          else if \<not> validate_on_submit (today clk) form
          then (Redirect ''Invalid booking data.'' ''dashboard-danger'' ''staff_dashboard'', db)
          else
            (case (facility_id_data form, booking_date_data form,
                   start_time_data form, end_time_data form) of
               (Some fid, Some bdate, Some stime, Some etime) \<Rightarrow>
                 (case Booking_create clk (usr_id current_user) fid bdate stime etime
                         (purpose_data form) db of
                    Inl _ \<Rightarrow> (ServerError, db)
                  | Inr (_, db') \<Rightarrow>
                      (Redirect ''Booking request submitted.'' ''dashboard-success''
                         ''staff_dashboard'', db'))
             | _ \<Rightarrow> (ServerError, db)))"

definition cancel_booking :: "nat option \<Rightarrow> nat \<Rightarrow> database \<Rightarrow> response \<times> database" where
  "cancel_booking session k db =
     (case load_user session db of
        None \<Rightarrow> (Unauthorized, db)
      | Some current_user \<Rightarrow>
          if \<not> is_staff current_user then (Forbidden, db)
          else
            (case Booking_cancel k (usr_id current_user) db of
               (_, db') \<Rightarrow>
                 (Redirect ''Booking cancelled successfully.'' ''dashboard-success''
                    ''my_bookings'', db')))"

definition approve_booking :: "nat option \<Rightarrow> nat \<Rightarrow> database \<Rightarrow> response \<times> database" where
  "approve_booking session k db =
     (case load_user session db of
        None \<Rightarrow> (Unauthorized, db)
      | Some current_user \<Rightarrow>
          if \<not> is_admin current_user then (Forbidden, db)
          else
            (case Booking_update_status k Approved db of
               (_, db') \<Rightarrow>
                 (Redirect ''Booking approved.'' ''dashboard-success'' ''pending_bookings'', db')))"

definition reject_booking :: "nat option \<Rightarrow> nat \<Rightarrow> database \<Rightarrow> response \<times> database" where
  "reject_booking session k db =
     (case load_user session db of
        None \<Rightarrow> (Unauthorized, db)
      | Some current_user \<Rightarrow>
          if \<not> is_admin current_user then (Forbidden, db)
          else
            (case Booking_update_status k Rejected db of
               (_, db') \<Rightarrow>
                 (Redirect ''Booking rejected.'' ''dashboard-success'' ''pending_bookings'', db')))"

definition delete_facility :: "nat option \<Rightarrow> nat \<Rightarrow> database \<Rightarrow> response \<times> database" where
  "delete_facility session k db =
     (case load_user session db of
        None \<Rightarrow> (Unauthorized, db)
      | Some current_user \<Rightarrow>
          if \<not> is_admin current_user then (Forbidden, db)
          else
            (case Facility_get_by_id k db of
               None \<Rightarrow> (Redirect ''Facility not found.'' ''dashboard-danger'' ''facilities_list'', db)
             | Some facility \<Rightarrow>
                 if Facility_has_active_bookings k db
                 then (Redirect ''Cannot delete facility with active or pending bookings.''
                         ''dashboard-danger'' ''facilities_list'', db)
                 else
                   (case Facility_delete k db of
                      (_, db') \<Rightarrow>
                        (Redirect ''Facility deleted successfully.'' ''dashboard-success''
                           ''facilities_list'', db'))))"

section \<open>Notions of the specification\<close>

text \<open>
  The specification measures a booking in minutes and speaks of overlapping time
  windows; the source has neither notion. \<open>minutes_of\<close> is the time of day in minutes
  since midnight, and two half-open windows overlap when each starts before the other
  ends.
\<close>

definition minutes_of :: "time \<Rightarrow> int" where
  "minutes_of t = 60 * int (hour t) + int (minute t)"

definition intervals_overlap :: "time \<Rightarrow> time \<Rightarrow> time \<Rightarrow> time \<Rightarrow> bool" where
  "intervals_overlap start_a end_a start_b end_b \<longleftrightarrow> time_lt start_a end_b \<and> time_lt start_b end_a"

section \<open>A sample database\<close>

text \<open>
  Two staff users, one administrator, two facilities and three bookings: a pending
  and an approved one on the first facility, a rejected one on the second.
\<close>

definition ex_today :: date where
  "ex_today = \<lparr>year = 2026, month = 11, day = 3\<rparr>"

definition ex_tomorrow :: date where
  "ex_tomorrow = \<lparr>year = 2026, month = 11, day = 4\<rparr>"

definition ex_yesterday :: date where
  "ex_yesterday = \<lparr>year = 2026, month = 11, day = 2\<rparr>"

definition ex_clock :: clock where
  "ex_clock = \<lparr>today = ex_today, time_of_day = \<lparr>hour = 15, minute = 0\<rparr>\<rparr>"

definition ex_alice :: User where
  "ex_alice = \<lparr>usr_id = 1, usr_name = ''Alice'', email = ''alice@example.com'',
     password = ''pbkdf2$a'', usr_role = Staff,
     usr_created_at = (ex_yesterday, \<lparr>hour = 8, minute = 0\<rparr>)\<rparr>"

definition ex_bob :: User where
  "ex_bob = \<lparr>usr_id = 2, usr_name = ''Bob'', email = ''bob@example.com'',
     password = ''pbkdf2$b'', usr_role = Staff,
     usr_created_at = (ex_yesterday, \<lparr>hour = 8, minute = 5\<rparr>)\<rparr>"

definition ex_carol :: User where
  "ex_carol = \<lparr>usr_id = 3, usr_name = ''Carol'', email = ''carol@example.com'',
     password = ''pbkdf2$c'', usr_role = Admin,
     usr_created_at = (ex_yesterday, \<lparr>hour = 8, minute = 10\<rparr>)\<rparr>"

definition ex_room_a :: Facility where
  "ex_room_a = \<lparr>fac_id = 1, fac_name = ''Conference Room A'', capacity = 12,
     fac_status = Active, description = None, image = None,
     fac_created_at = (ex_yesterday, \<lparr>hour = 9, minute = 0\<rparr>)\<rparr>"

definition ex_room_b :: Facility where
  "ex_room_b = \<lparr>fac_id = 2, fac_name = ''Projector'', capacity = 1,
     fac_status = Active, description = None, image = None,
     fac_created_at = (ex_yesterday, \<lparr>hour = 9, minute = 5\<rparr>)\<rparr>"

definition ex_bk1 :: Booking where
  "ex_bk1 = \<lparr>booking_id = 1, user_id = 1, facility_id = 1, booking_date = ex_tomorrow,
     start_time = \<lparr>hour = 9, minute = 0\<rparr>, end_time = \<lparr>hour = 10, minute = 30\<rparr>,
     status = Pending, purpose = ''Team sync'',
     created_at = (ex_yesterday, \<lparr>hour = 10, minute = 0\<rparr>)\<rparr>"

definition ex_bk2 :: Booking where
  "ex_bk2 = \<lparr>booking_id = 2, user_id = 2, facility_id = 1, booking_date = ex_tomorrow,
     start_time = \<lparr>hour = 10, minute = 0\<rparr>, end_time = \<lparr>hour = 11, minute = 0\<rparr>,
     status = Approved, purpose = ''Interview'',
     created_at = (ex_yesterday, \<lparr>hour = 10, minute = 5\<rparr>)\<rparr>"

definition ex_bk3 :: Booking where
  "ex_bk3 = \<lparr>booking_id = 3, user_id = 1, facility_id = 2, booking_date = ex_tomorrow,
     start_time = \<lparr>hour = 13, minute = 0\<rparr>, end_time = \<lparr>hour = 14, minute = 0\<rparr>,
     status = Rejected, purpose = ''Demo'',
     created_at = (ex_yesterday, \<lparr>hour = 10, minute = 10\<rparr>)\<rparr>"

definition ex_db :: database where
  "ex_db = \<lparr>users = [ex_alice, ex_bob, ex_carol], facilities = [ex_room_a, ex_room_b],
     bookings = [ex_bk1, ex_bk2, ex_bk3], bookings_auto_increment = 4\<rparr>"

definition ex_form :: BookingForm where
  "ex_form = \<lparr>csrf_token_ok = True, facility_id_data = Some 1,
     booking_date_data = Some ex_tomorrow,
     start_time_data = Some \<lparr>hour = 9, minute = 0\<rparr>,
     end_time_data = Some \<lparr>hour = 10, minute = 30\<rparr>,
     purpose_data = ''Team sync''\<rparr>"

section \<open>Properties of the operations\<close>

lemma map_cong_id: "(\<And>x. x \<in> set xs \<Longrightarrow> f x = x) \<Longrightarrow> map f xs = xs"
  by (induction xs) auto

lemma distinct_key_find:
  "distinct (map key xs) \<Longrightarrow> find (\<lambda>x. key x = k) xs = Some b \<Longrightarrow> x \<in> set xs \<Longrightarrow> key x = k \<Longrightarrow> x = b"
  by (induction xs) (auto split: if_splits simp: find_Some_iff image_iff)

lemma Booking_cancel_get_same:
  "Booking_get_by_id k (snd (Booking_cancel k uid db)) =
     map_option (\<lambda>b. if user_id b = uid \<and> status b = Pending then b\<lparr>status := Cancelled\<rparr> else b)
       (Booking_get_by_id k db)"
proof -
  have "find (\<lambda>b. booking_id b = k)
          (map (\<lambda>b. if booking_id b = k \<and> user_id b = uid \<and> status b = Pending
                then b\<lparr>status := Cancelled\<rparr> else b) xs) =
        map_option (\<lambda>b. if user_id b = uid \<and> status b = Pending then b\<lparr>status := Cancelled\<rparr> else b)
          (find (\<lambda>b. booking_id b = k) xs)" for xs :: "Booking list"
    by (induction xs) auto
  then show ?thesis by (simp add: Booking_get_by_id_def Booking_cancel_def)
qed

lemma Booking_cancel_get_other:
  "k' \<noteq> k \<Longrightarrow> Booking_get_by_id k' (snd (Booking_cancel k uid db)) = Booking_get_by_id k' db"
proof -
  assume ne: "k' \<noteq> k"
  have "find (\<lambda>b. booking_id b = k')
          (map (\<lambda>b. if booking_id b = k \<and> user_id b = uid \<and> status b = Pending
                then b\<lparr>status := Cancelled\<rparr> else b) xs) =
        find (\<lambda>b. booking_id b = k') xs" for xs :: "Booking list"
    using ne by (induction xs) auto
  then show ?thesis by (simp add: Booking_get_by_id_def Booking_cancel_def)
qed

lemma Booking_cancel_noop:
  assumes "\<forall>b \<in> set (bookings db). \<not> (booking_id b = k \<and> user_id b = uid \<and> status b = Pending)"
  shows "Booking_cancel k uid db = (0, db)"
proof -
  have "map (\<lambda>b. if booking_id b = k \<and> user_id b = uid \<and> status b = Pending
                then b\<lparr>status := Cancelled\<rparr> else b) (bookings db) = bookings db"
    using assms by (intro map_cong_id) auto
  moreover have "filter (\<lambda>b. booking_id b = k \<and> user_id b = uid \<and> status b = Pending) (bookings db) = []"
    using assms by (auto simp: filter_empty_conv)
  ultimately show ?thesis by (simp add: Booking_cancel_def)
qed

lemma cancel_booking_staff:
  "load_user session db = Some cu \<Longrightarrow> is_staff cu \<Longrightarrow>
   cancel_booking session k db =
     (Redirect ''Booking cancelled successfully.'' ''dashboard-success'' ''my_bookings'',
      snd (Booking_cancel k (usr_id cu) db))"
  by (simp add: cancel_booking_def split: prod.splits)

lemma cancel_booking_not_staff:
  "load_user session db = Some cu \<Longrightarrow> \<not> is_staff cu \<Longrightarrow>
   cancel_booking session k db = (Forbidden, db)"
  by (simp add: cancel_booking_def)

lemma cancel_booking_not_logged_in:
  "load_user session db = None \<Longrightarrow> cancel_booking session k db = (Unauthorized, db)"
  by (simp add: cancel_booking_def)

lemma Booking_update_status_get_same:
  "Booking_get_by_id k (snd (Booking_update_status k s db)) =
     map_option (\<lambda>b. b\<lparr>status := s\<rparr>) (Booking_get_by_id k db)"
proof -
  have "find (\<lambda>b. booking_id b = k)
          (map (\<lambda>b. if booking_id b = k then b\<lparr>status := s\<rparr> else b) xs) =
        map_option (\<lambda>b. b\<lparr>status := s\<rparr>) (find (\<lambda>b. booking_id b = k) xs)" for xs :: "Booking list"
    by (induction xs) auto
  then show ?thesis by (simp add: Booking_get_by_id_def Booking_update_status_def)
qed

lemma Booking_update_status_get_other:
  assumes "k' \<noteq> k"
  shows "Booking_get_by_id k' (snd (Booking_update_status k s db)) = Booking_get_by_id k' db"
proof -
  have "find (\<lambda>b. booking_id b = k')
          (map (\<lambda>b. if booking_id b = k then b\<lparr>status := s\<rparr> else b) xs) =
        find (\<lambda>b. booking_id b = k') xs" for xs :: "Booking list"
    using assms by (induction xs) auto
  then show ?thesis by (simp add: Booking_get_by_id_def Booking_update_status_def)
qed

lemma Booking_update_status_noop:
  assumes "Booking_get_by_id k db = None"
  shows "Booking_update_status k s db = (0, db)"
proof -
  from assms have none: "\<forall>b \<in> set (bookings db). booking_id b \<noteq> k"
    by (simp add: Booking_get_by_id_def find_None_iff)
  then have "map (\<lambda>b. if booking_id b = k then b\<lparr>status := s\<rparr> else b) (bookings db) = bookings db"
    by (intro map_cong_id) auto
  moreover from none have "filter (\<lambda>b. booking_id b = k \<and> status b \<noteq> s) (bookings db) = []"
    by (auto simp: filter_empty_conv)
  ultimately show ?thesis by (simp add: Booking_update_status_def)
qed

lemma approve_booking_admin:
  "load_user session db = Some cu \<Longrightarrow> is_admin cu \<Longrightarrow>
   approve_booking session k db =
     (Redirect ''Booking approved.'' ''dashboard-success'' ''pending_bookings'',
      snd (Booking_update_status k Approved db))"
  by (simp add: approve_booking_def split: prod.splits)

lemma reject_booking_admin:
  "load_user session db = Some cu \<Longrightarrow> is_admin cu \<Longrightarrow>
   reject_booking session k db =
     (Redirect ''Booking rejected.'' ''dashboard-success'' ''pending_bookings'',
      snd (Booking_update_status k Rejected db))"
  by (simp add: reject_booking_def split: prod.splits)

lemma delete_facility_admin_found:
  "load_user session db = Some cu \<Longrightarrow> is_admin cu \<Longrightarrow> Facility_get_by_id k db = Some f \<Longrightarrow>
   delete_facility session k db =
     (if Facility_has_active_bookings k db
      then (Redirect ''Cannot delete facility with active or pending bookings.''
              ''dashboard-danger'' ''facilities_list'', db)
      else (Redirect ''Facility deleted successfully.'' ''dashboard-success'' ''facilities_list'',
            snd (Facility_delete k db)))"
  by (simp add: delete_facility_def split: prod.splits)

lemma Facility_has_active_bookings_iff:
  "Facility_has_active_bookings k db \<longleftrightarrow>
     (\<exists>b \<in> set (bookings db). facility_id b = k \<and> (status b = Pending \<or> status b = Approved))"
  by (auto simp: Facility_has_active_bookings_def filter_empty_conv)

lemma not_active_status: "\<not> (s = Pending \<or> s = Approved) \<longleftrightarrow> s = Rejected \<or> s = Cancelled"
  by (cases s) auto

lemma total_seconds_minutes: "total_seconds s e = 60 * (minutes_of e - minutes_of s)"
  by (simp add: total_seconds_def minutes_of_def)

lemma time_le_minutes:
  "valid_time a \<Longrightarrow> valid_time b \<Longrightarrow> time_le a b \<longleftrightarrow> minutes_of a \<le> minutes_of b"
  by (auto simp: time_le_def valid_time_def minutes_of_def)

lemma duration_hours_gt: "((of_int (60 * d) :: rat) / 3600 > 8) \<longleftrightarrow> d > 480"
proof -
  have "((of_int (60 * d) :: rat) / 3600 > 8) \<longleftrightarrow> (of_int (60 * d) :: rat) > of_int 28800"
    by (simp add: pos_less_divide_eq)
  also have "\<dots> \<longleftrightarrow> 60 * d > 28800" by (simp only: of_int_less_iff)
  also have "\<dots> \<longleftrightarrow> d > 480" by arith
  finally show ?thesis .
qed

lemma duration_hours_lt: "((of_int (60 * d) :: rat) / 3600 < 1 / 2) \<longleftrightarrow> d < 30"
proof -
  have "((of_int (60 * d) :: rat) / 3600 < 1 / 2) \<longleftrightarrow> (of_int (60 * d) :: rat) < of_int 1800"
    by (simp add: pos_divide_less_eq)
  also have "\<dots> \<longleftrightarrow> 60 * d < 1800" by (simp only: of_int_less_iff)
  also have "\<dots> \<longleftrightarrow> d < 30" by arith
  finally show ?thesis .
qed

lemma validate_end_time_cases:
  "validate_end_time (Some s) e =
     (if time_le e s then Inl (ValidationError ''End time must be after start time'')
      else if minutes_of e - minutes_of s > 480
      then Inl (ValidationError ''Maximum booking duration is 8 hours'')
      else if minutes_of e - minutes_of s < 30
      then Inl (ValidationError ''Minimum booking duration is 30 minutes'')
      else Inr ())"
  by (simp add: validate_end_time_def Let_def total_seconds_minutes
        duration_hours_gt duration_hours_lt del: of_int_mult)

lemma form_errors_mem:
  "(n, e) \<in> set (form_errors t form) \<longleftrightarrow> (n, Inl e) \<in> set (field_results t form)"
  by (force simp: form_errors_def List.map_filter_def split: sum.splits prod.splits)

lemma validate_on_submit_iff:
  "validate_on_submit t form \<longleftrightarrow>
     csrf_token_ok form \<and>
     facility_id_data form \<noteq> None \<and>
     (\<exists>d. booking_date_data form = Some d \<and> \<not> date_lt d t) \<and>
     start_time_data form \<noteq> None \<and>
     (\<exists>e. end_time_data form = Some e \<and> validate_end_time (start_time_data form) e = Inr ()) \<and>
     length (purpose_data form) \<le> 500"
  unfolding validate_on_submit_def form_errors_def field_results_def
  by (auto simp: required_def validate_csrf_token_def
        validate_purpose_def validate_booking_date_def
        split: sum.splits option.splits if_splits)

lemma create_booking_invalid:
  "\<not> validate_on_submit (today clk) form \<Longrightarrow> snd (create_booking clk session form db) = db"
  by (simp add: create_booking_def split: option.splits)

lemma create_booking_invalid_staff:
  "\<not> validate_on_submit (today clk) form \<Longrightarrow> load_user session db = Some cu \<Longrightarrow> is_staff cu \<Longrightarrow>
   create_booking clk session form db =
     (Redirect ''Invalid booking data.'' ''dashboard-danger'' ''staff_dashboard'', db)"
  by (simp add: create_booking_def)

lemma create_booking_never_success_invalid:
  "\<not> validate_on_submit (today clk) form \<Longrightarrow>
   fst (create_booking clk session form db) \<noteq>
     Redirect ''Booking request submitted.'' ''dashboard-success'' ''staff_dashboard''"
  by (simp add: create_booking_def split: option.splits)

lemma load_user_stored:
  "load_user session db = Some cu \<Longrightarrow> \<exists>u \<in> set (users db). usr_id u = usr_id cu"
  by (auto simp: load_user_def User_get_by_id_def find_Some_iff split: option.splits)

lemma Facility_get_by_id_stored:
  "Facility_get_by_id k db \<noteq> None \<longleftrightarrow> (\<exists>f \<in> set (facilities db). fac_id f = k)"
  by (auto simp: Facility_get_by_id_def find_None_iff)

lemma Booking_create_ok:
  assumes "\<exists>u \<in> set (users db). usr_id u = uid" and "\<exists>f \<in> set (facilities db). fac_id f = fid"
  shows "Booking_create clk uid fid d s e p db =
     Inr (1, db\<lparr>bookings := bookings db @
              [\<lparr>booking_id = bookings_auto_increment db, user_id = uid, facility_id = fid,
                booking_date = d, start_time = s, end_time = e,
                status = Pending, purpose = p,
                created_at = (today clk, time_of_day clk)\<rparr>],
           bookings_auto_increment := Suc (bookings_auto_increment db)\<rparr>)"
  using assms by (simp add: Booking_create_def)

lemma create_booking_valid:
  assumes "load_user session db = Some cu" and "is_staff cu"
    and "validate_on_submit (today clk) form"
    and "facility_id_data form = Some fid" and "booking_date_data form = Some d"
    and "start_time_data form = Some s" and "end_time_data form = Some e"
    and "Facility_get_by_id fid db \<noteq> None"
  shows "create_booking clk session form db =
     (Redirect ''Booking request submitted.'' ''dashboard-success'' ''staff_dashboard'',
      db\<lparr>bookings := bookings db @
              [\<lparr>booking_id = bookings_auto_increment db, user_id = usr_id cu, facility_id = fid,
                booking_date = d, start_time = s, end_time = e,
                status = Pending, purpose = purpose_data form,
                created_at = (today clk, time_of_day clk)\<rparr>],
           bookings_auto_increment := Suc (bookings_auto_increment db)\<rparr>)"
proof -
  have "Booking_create clk (usr_id cu) fid d s e (purpose_data form) db =
     Inr (1, db\<lparr>bookings := bookings db @
              [\<lparr>booking_id = bookings_auto_increment db, user_id = usr_id cu, facility_id = fid,
                booking_date = d, start_time = s, end_time = e,
                status = Pending, purpose = purpose_data form,
                created_at = (today clk, time_of_day clk)\<rparr>],
           bookings_auto_increment := Suc (bookings_auto_increment db)\<rparr>)"
    using load_user_stored[OF assms(1)] assms(8)
    by (intro Booking_create_ok) (simp_all only: Facility_get_by_id_stored)
  then show ?thesis
    using assms(1-7) by (simp add: create_booking_def)
qed

lemma wf_db_Booking_create:
  assumes "wf_db db" and "Booking_create clk uid fid d s e p db = Inr (n, db')"
  shows "wf_db db'"
proof -
  from assms(2) have ex: "(\<exists>u \<in> set (users db). usr_id u = uid)" "(\<exists>f \<in> set (facilities db). fac_id f = fid)"
    by (auto simp: Booking_create_def split: if_splits)
  from assms(2) Booking_create_ok[OF ex, of clk d s e p]
  have db': "db' = db\<lparr>bookings := bookings db @
              [\<lparr>booking_id = bookings_auto_increment db, user_id = uid, facility_id = fid,
                booking_date = d, start_time = s, end_time = e,
                status = Pending, purpose = p,
                created_at = (today clk, time_of_day clk)\<rparr>],
           bookings_auto_increment := Suc (bookings_auto_increment db)\<rparr>"
    by simp
  show ?thesis
    using assms(1) ex unfolding db' wf_db_def
    by (auto simp: less_Suc_eq)
qed

lemma wf_db_fresh_id:
  "wf_db db \<Longrightarrow> \<forall>b \<in> set (bookings db). booking_id b \<noteq> bookings_auto_increment db"
  by (auto simp: wf_db_def)

lemma wf_db_Booking_update_status:
  assumes "wf_db db"
  shows "wf_db (snd (Booking_update_status k s db))"
proof -
  have "booking_id \<circ> (\<lambda>b::Booking. if booking_id b = k then b\<lparr>status := s\<rparr> else b) = booking_id"
    by (auto simp: fun_eq_iff)
  then show ?thesis
    using assms unfolding wf_db_def Booking_update_status_def
    by (auto split: if_splits)
qed

lemma wf_db_Booking_cancel:
  assumes "wf_db db"
  shows "wf_db (snd (Booking_cancel k uid db))"
proof -
  have "booking_id \<circ> (\<lambda>b::Booking. if booking_id b = k \<and> user_id b = uid \<and> status b = Pending
                    then b\<lparr>status := Cancelled\<rparr> else b) = booking_id"
    by (auto simp: fun_eq_iff)
  then show ?thesis
    using assms unfolding wf_db_def Booking_cancel_def
    by (auto split: if_splits)
qed

lemma wf_db_Facility_delete:
  assumes "wf_db db"
  shows "wf_db (snd (Facility_delete k db))"
  using assms unfolding wf_db_def Facility_delete_def
  by (fastforce simp: distinct_map_filter)

lemma load_user_same_users:
  "load_user session (db\<lparr>bookings := bs\<rparr>) = load_user session db"
  "load_user session (db\<lparr>bookings := bs, bookings_auto_increment := n\<rparr>) = load_user session db"
  by (simp_all add: load_user_def User_get_by_id_def split: option.splits)

lemma Facility_get_by_id_same_facilities:
  "Facility_get_by_id k (db\<lparr>bookings := bs\<rparr>) = Facility_get_by_id k db"
  "Facility_get_by_id k (db\<lparr>bookings := bs, bookings_auto_increment := n\<rparr>) =
     Facility_get_by_id k db"
  by (simp_all add: Facility_get_by_id_def)

lemma date_lt_irrefl: "\<not> date_lt d d"
  by (simp add: date_lt_def)

lemmas ex_defs = ex_today_def ex_tomorrow_def ex_yesterday_def ex_clock_def ex_alice_def
  ex_bob_def ex_carol_def ex_room_a_def ex_room_b_def ex_bk1_def ex_bk2_def ex_bk3_def
  ex_db_def ex_form_def

lemmas model_defs = Booking_get_by_id_def Booking_cancel_def Booking_update_status_def
  load_user_def User_get_by_id_def is_staff_def is_admin_def Facility_get_by_id_def
  Facility_has_active_bookings_def Facility_delete_def wf_db_def

lemmas form_defs = validate_on_submit_def form_errors_def field_results_def
  required_def validate_csrf_token_def validate_purpose_def
  validate_booking_date_def validate_end_time_def total_seconds_def date_lt_def time_le_def
  time_lt_def valid_time_def minutes_of_def

section \<open>The claims\<close>

text \<open>
  Claim C1. \<^verbatim>\<open>Booking.cancel\<close> turns the stored booking with the given key into a
  cancelled one exactly when that booking is pending and owned by the requesting user:
  the row read back is the old row with only the status replaced in that case and the
  old row otherwise, and the row differs from the old one if and only if it was pending
  and owned by the requester. With a wrong owner or a status other than pending the
  whole database is unchanged (keys being unique), as it is when no booking has the
  key. Bookings with other keys, users and facilities are never touched. The route
  \<^verbatim>\<open>cancel_booking\<close> of a logged-in staff user performs exactly this operation with
  the user's own id.
\<close>

theorem cancel_iff_pending_and_owner:
  "(\<forall>b. Booking_get_by_id k db = Some b \<longrightarrow>
      Booking_get_by_id k (snd (Booking_cancel k uid db)) =
        Some (if status b = Pending \<and> user_id b = uid then b\<lparr>status := Cancelled\<rparr> else b) \<and>
      (Booking_get_by_id k (snd (Booking_cancel k uid db)) \<noteq> Some b
         \<longleftrightarrow> status b = Pending \<and> user_id b = uid) \<and>
      (wf_db db \<longrightarrow> \<not> (status b = Pending \<and> user_id b = uid) \<longrightarrow>
         snd (Booking_cancel k uid db) = db)) \<and>
   (Booking_get_by_id k db = None \<longrightarrow> snd (Booking_cancel k uid db) = db) \<and>
   (\<forall>k'. k' \<noteq> k \<longrightarrow>
      Booking_get_by_id k' (snd (Booking_cancel k uid db)) = Booking_get_by_id k' db) \<and>
   users (snd (Booking_cancel k uid db)) = users db \<and>
   facilities (snd (Booking_cancel k uid db)) = facilities db \<and>
   (\<forall>cu. load_user session db = Some cu \<longrightarrow> is_staff cu \<longrightarrow> usr_id cu = uid \<longrightarrow>
      snd (cancel_booking session k db) = snd (Booking_cancel k uid db))"
proof (intro conjI allI impI)
  fix b assume b: "Booking_get_by_id k db = Some b"
  show "Booking_get_by_id k (snd (Booking_cancel k uid db)) =
        Some (if status b = Pending \<and> user_id b = uid then b\<lparr>status := Cancelled\<rparr> else b)"
    using b by (auto simp: Booking_cancel_get_same)
  then show "(Booking_get_by_id k (snd (Booking_cancel k uid db)) \<noteq> Some b)
         = (status b = Pending \<and> user_id b = uid)"
    by (cases b) auto
  assume wf: "wf_db db" and no: "\<not> (status b = Pending \<and> user_id b = uid)"
  have "\<forall>x \<in> set (bookings db). \<not> (booking_id x = k \<and> user_id x = uid \<and> status x = Pending)"
  proof
    fix x assume x: "x \<in> set (bookings db)"
    show "\<not> (booking_id x = k \<and> user_id x = uid \<and> status x = Pending)"
    proof
      assume h: "booking_id x = k \<and> user_id x = uid \<and> status x = Pending"
      have "x = b"
        using distinct_key_find[of booking_id "bookings db" k b x] wf b x h
        by (simp add: wf_db_def Booking_get_by_id_def)
      with h no show False by simp
    qed
  qed
  then show "snd (Booking_cancel k uid db) = db"
    by (simp add: Booking_cancel_noop)
next
  assume "Booking_get_by_id k db = None"
  then have "\<forall>x \<in> set (bookings db). \<not> (booking_id x = k \<and> user_id x = uid \<and> status x = Pending)"
    by (auto simp: Booking_get_by_id_def find_None_iff)
  then show "snd (Booking_cancel k uid db) = db"
    by (simp add: Booking_cancel_noop)
next
  fix k' assume "k' \<noteq> k"
  then show "Booking_get_by_id k' (snd (Booking_cancel k uid db)) = Booking_get_by_id k' db"
    by (rule Booking_cancel_get_other)
next
  show "users (snd (Booking_cancel k uid db)) = users db"
    by (simp add: Booking_cancel_def)
  show "facilities (snd (Booking_cancel k uid db)) = facilities db"
    by (simp add: Booking_cancel_def)
next
  fix cu assume "load_user session db = Some cu" "is_staff cu" "usr_id cu = uid"
  then show "snd (cancel_booking session k db) = snd (Booking_cancel k uid db)"
    by (simp add: cancel_booking_staff)
qed

text \<open>
  On the sample database: the owner cancels the pending booking 1; the owner of the
  approved booking 2 changes nothing; there is no booking 9.
\<close>

theorem cancel_iff_pending_and_owner_witness:
  "Booking_get_by_id 1 ex_db = Some ex_bk1 \<and> status ex_bk1 = Pending \<and> user_id ex_bk1 = 1 \<and>
   Booking_get_by_id 1 (snd (Booking_cancel 1 1 ex_db)) = Some (ex_bk1\<lparr>status := Cancelled\<rparr>) \<and>
   load_user (Some 1) ex_db = Some ex_alice \<and> is_staff ex_alice \<and>
   snd (cancel_booking (Some 1) 1 ex_db) = snd (Booking_cancel 1 1 ex_db) \<and>
   Booking_get_by_id 2 (snd (Booking_cancel 1 1 ex_db)) = Booking_get_by_id 2 ex_db \<and>
   wf_db ex_db \<and> Booking_get_by_id 2 ex_db = Some ex_bk2 \<and> status ex_bk2 = Approved \<and>
   snd (Booking_cancel 2 2 ex_db) = ex_db \<and>
   Booking_get_by_id 9 ex_db = None \<and> snd (Booking_cancel 9 1 ex_db) = ex_db"
  using cancel_iff_pending_and_owner[where k = 1 and db = ex_db and uid = 1 and session = "Some 1"]
    cancel_iff_pending_and_owner[where k = 2 and db = ex_db and uid = 2 and session = "Some 2"]
    cancel_iff_pending_and_owner[where k = 9 and db = ex_db and uid = 1 and session = "Some 1"]
  by (simp add: ex_defs model_defs)

text \<open>
  Claim C2. For times of day as the form parses them, \<^verbatim>\<open>validate_end_time\<close> accepts
  exactly when the end is strictly after the start and the duration is at least 30 and
  at most 480 minutes. An end at or before the start, a duration above 8 hours and a
  duration below 30 minutes are each refused with the message of that rule. Whenever
  the validator refuses, the error is recorded under the field \<^verbatim>\<open>end_time\<close>, the form
  does not validate, and \<^verbatim>\<open>create_booking\<close> leaves the database as it was and does
  not report a submitted booking.
\<close>

theorem duration_bounds_validated:
  "(valid_time s \<longrightarrow> valid_time e \<longrightarrow>
      (validate_end_time (Some s) e = Inr () \<longleftrightarrow>
         minutes_of s < minutes_of e \<and>
         30 \<le> minutes_of e - minutes_of s \<and> minutes_of e - minutes_of s \<le> 480) \<and>
      (minutes_of e \<le> minutes_of s \<longrightarrow>
         validate_end_time (Some s) e =
           Inl (ValidationError ''End time must be after start time'')) \<and>
      (minutes_of e - minutes_of s > 480 \<longrightarrow>
         validate_end_time (Some s) e =
           Inl (ValidationError ''Maximum booking duration is 8 hours'')) \<and>
      (minutes_of s < minutes_of e \<and> minutes_of e - minutes_of s < 30 \<longrightarrow>
         validate_end_time (Some s) e =
           Inl (ValidationError ''Minimum booking duration is 30 minutes''))) \<and>
   (\<forall>err. start_time_data form = Some s \<longrightarrow> end_time_data form = Some e \<longrightarrow>
      validate_end_time (Some s) e = Inl err \<longrightarrow>
        (''end_time'', err) \<in> set (form_errors (today clk) form) \<and>
        \<not> validate_on_submit (today clk) form \<and>
        snd (create_booking clk session form db) = db \<and>
        fst (create_booking clk session form db) \<noteq>
          Redirect ''Booking request submitted.'' ''dashboard-success'' ''staff_dashboard'')"
proof (intro conjI allI impI)
  assume v: "valid_time s" "valid_time e"
  show "(validate_end_time (Some s) e = Inr ()) =
        (minutes_of s < minutes_of e \<and>
         30 \<le> minutes_of e - minutes_of s \<and> minutes_of e - minutes_of s \<le> 480)"
    using v by (auto simp: validate_end_time_cases time_le_minutes)
  show "validate_end_time (Some s) e = Inl (ValidationError ''End time must be after start time'')"
    if "minutes_of e \<le> minutes_of s"
    using v that by (simp add: validate_end_time_cases time_le_minutes)
  show "validate_end_time (Some s) e = Inl (ValidationError ''Maximum booking duration is 8 hours'')"
    if "minutes_of e - minutes_of s > 480"
    using v that by (auto simp: validate_end_time_cases time_le_minutes)
  show "validate_end_time (Some s) e =
          Inl (ValidationError ''Minimum booking duration is 30 minutes'')"
    if "minutes_of s < minutes_of e \<and> minutes_of e - minutes_of s < 30"
    using v that by (auto simp: validate_end_time_cases time_le_minutes)
next
  fix err
  assume f: "start_time_data form = Some s" "end_time_data form = Some e"
    and bad: "validate_end_time (Some s) e = Inl err"
  show "(''end_time'', err) \<in> set (form_errors (today clk) form)"
    using f bad by (simp add: form_errors_mem field_results_def required_def)
  show inv: "\<not> validate_on_submit (today clk) form"
    using f bad by (simp add: validate_on_submit_iff)
  show "snd (create_booking clk session form db) = db"
    using inv by (rule create_booking_invalid)
  show "fst (create_booking clk session form db) \<noteq>
          Redirect ''Booking request submitted.'' ''dashboard-success'' ''staff_dashboard''"
    using inv by (rule create_booking_never_success_invalid)
qed

text \<open>
  09:00 to 10:30 passes; 14:00 to 13:00, 08:00 to 17:00 and 09:00 to 09:29 fail with the
  three messages.
\<close>

theorem duration_bounds_validated_witness:
  "valid_time \<lparr>hour = 9, minute = 0\<rparr> \<and> valid_time \<lparr>hour = 10, minute = 30\<rparr> \<and>
   validate_end_time (Some \<lparr>hour = 9, minute = 0\<rparr>) \<lparr>hour = 10, minute = 30\<rparr> = Inr () \<and>
   validate_end_time (Some \<lparr>hour = 14, minute = 0\<rparr>) \<lparr>hour = 13, minute = 0\<rparr> =
     Inl (ValidationError ''End time must be after start time'') \<and>
   validate_end_time (Some \<lparr>hour = 8, minute = 0\<rparr>) \<lparr>hour = 17, minute = 0\<rparr> =
     Inl (ValidationError ''Maximum booking duration is 8 hours'') \<and>
   validate_end_time (Some \<lparr>hour = 9, minute = 0\<rparr>) \<lparr>hour = 9, minute = 29\<rparr> =
     Inl (ValidationError ''Minimum booking duration is 30 minutes'') \<and>
   (''end_time'', ValidationError ''End time must be after start time'')
      \<in> set (form_errors (today ex_clock)
                (ex_form\<lparr>start_time_data := Some \<lparr>hour = 14, minute = 0\<rparr>,
                          end_time_data := Some \<lparr>hour = 13, minute = 0\<rparr>\<rparr>)) \<and>
   snd (create_booking ex_clock (Some 1)
          (ex_form\<lparr>start_time_data := Some \<lparr>hour = 14, minute = 0\<rparr>,
                    end_time_data := Some \<lparr>hour = 13, minute = 0\<rparr>\<rparr>) ex_db) = ex_db"
  using duration_bounds_validated[where s = "\<lparr>hour = 9, minute = 0\<rparr>"
      and e = "\<lparr>hour = 10, minute = 30\<rparr>" and form = ex_form and clk = ex_clock
      and session = "Some 1" and db = ex_db]
    duration_bounds_validated[where s = "\<lparr>hour = 14, minute = 0\<rparr>"
      and e = "\<lparr>hour = 13, minute = 0\<rparr>"
      and form = "ex_form\<lparr>start_time_data := Some \<lparr>hour = 14, minute = 0\<rparr>,
                          end_time_data := Some \<lparr>hour = 13, minute = 0\<rparr>\<rparr>"
      and clk = ex_clock and session = "Some 1" and db = ex_db]
    duration_bounds_validated[where s = "\<lparr>hour = 8, minute = 0\<rparr>"
      and e = "\<lparr>hour = 17, minute = 0\<rparr>" and form = ex_form and clk = ex_clock
      and session = "Some 1" and db = ex_db]
    duration_bounds_validated[where s = "\<lparr>hour = 9, minute = 0\<rparr>"
      and e = "\<lparr>hour = 9, minute = 29\<rparr>" and form = ex_form and clk = ex_clock
      and session = "Some 1" and db = ex_db]
  by (simp add: valid_time_def minutes_of_def ex_form_def)

text \<open>
  Claim C3. For an administrator and a stored booking in any status whatever,
  \<^verbatim>\<open>approve_booking\<close> leaves the booking approved and \<^verbatim>\<open>reject_booking\<close> leaves it
  rejected (\<^verbatim>\<open>Booking.update_status\<close> writes the status it is given without reading
  the current one). A booking that is not pending, in particular an approved, rejected
  or cancelled one, is returned unchanged by the cancellation, whoever asks.
\<close>

theorem admin_transitions_overwrite_any_status:
  assumes "load_user session db = Some cu" and "is_admin cu"
    and "Booking_get_by_id k db = Some b"
  shows "Booking_get_by_id k (snd (approve_booking session k db)) = Some (b\<lparr>status := Approved\<rparr>) \<and>
         Booking_get_by_id k (snd (reject_booking session k db)) = Some (b\<lparr>status := Rejected\<rparr>) \<and>
         (\<forall>s. Booking_get_by_id k (snd (Booking_update_status k s db)) = Some (b\<lparr>status := s\<rparr>)) \<and>
         (status b \<noteq> Pending \<longrightarrow>
            (\<forall>uid. Booking_get_by_id k (snd (Booking_cancel k uid db)) = Some b) \<and>
            (\<forall>session'. Booking_get_by_id k (snd (cancel_booking session' k db)) = Some b))"
proof (intro conjI allI impI)
  show "Booking_get_by_id k (snd (approve_booking session k db)) = Some (b\<lparr>status := Approved\<rparr>)"
    using assms by (simp add: approve_booking_admin Booking_update_status_get_same)
  show "Booking_get_by_id k (snd (reject_booking session k db)) = Some (b\<lparr>status := Rejected\<rparr>)"
    using assms by (simp add: reject_booking_admin Booking_update_status_get_same)
  show "Booking_get_by_id k (snd (Booking_update_status k s db)) = Some (b\<lparr>status := s\<rparr>)" for s
    using assms(3) by (simp add: Booking_update_status_get_same)
next
  fix uid assume t: "status b \<noteq> Pending"
  show c: "Booking_get_by_id k (snd (Booking_cancel k uid db)) = Some b" for uid
    using assms(3) t by (simp add: Booking_cancel_get_same)
  show "Booking_get_by_id k (snd (cancel_booking session' k db)) = Some b" for session'
    using assms(3) c by (auto simp: cancel_booking_def split: option.splits prod.splits)
       (metis snd_conv)
qed

text \<open>
  The administrator approves the rejected booking 3, which its owner cannot cancel.
\<close>

theorem admin_transitions_overwrite_any_status_witness:
  "load_user (Some 3) ex_db = Some ex_carol \<and> is_admin ex_carol \<and>
   Booking_get_by_id 3 ex_db = Some ex_bk3 \<and> status ex_bk3 = Rejected \<and>
   Booking_get_by_id 3 (snd (approve_booking (Some 3) 3 ex_db)) = Some (ex_bk3\<lparr>status := Approved\<rparr>) \<and>
   Booking_get_by_id 3 (snd (reject_booking (Some 3) 3 ex_db)) = Some (ex_bk3\<lparr>status := Rejected\<rparr>) \<and>
   Booking_get_by_id 3 (snd (Booking_cancel 3 1 ex_db)) = Some ex_bk3 \<and>
   Booking_get_by_id 3 (snd (cancel_booking (Some 1) 3 ex_db)) = Some ex_bk3"
  using admin_transitions_overwrite_any_status[where session = "Some 3" and db = ex_db
      and cu = ex_carol and k = 3 and b = ex_bk3]
  by (simp add: ex_defs model_defs)

text \<open>
  Claim C4. When the booking date of the form is before today, the date validator
  raises its past-date error, the error is recorded under the field \<^verbatim>\<open>booking_date\<close>,
  the form does not validate, and \<^verbatim>\<open>create_booking\<close> returns the database exactly as
  it received it, for every session; a staff user is answered with the
  invalid-data message.
\<close>

theorem past_date_rejected:
  assumes "booking_date_data form = Some d" and "date_lt d (today clk)"
  shows "validate_booking_date (today clk) d = Inl (ValidationError ''Cannot book for past dates'') \<and>
         (''booking_date'', ValidationError ''Cannot book for past dates'')
            \<in> set (form_errors (today clk) form) \<and>
         \<not> validate_on_submit (today clk) form \<and>
         snd (create_booking clk session form db) = db \<and>
         fst (create_booking clk session form db) \<noteq>
           Redirect ''Booking request submitted.'' ''dashboard-success'' ''staff_dashboard'' \<and>
         (\<forall>cu. load_user session db = Some cu \<longrightarrow> is_staff cu \<longrightarrow>
            fst (create_booking clk session form db) =
              Redirect ''Invalid booking data.'' ''dashboard-danger'' ''staff_dashboard'')"
proof -
  have inv: "\<not> validate_on_submit (today clk) form"
    using assms by (simp add: validate_on_submit_iff)
  have "(''booking_date'', ValidationError ''Cannot book for past dates'')
            \<in> set (form_errors (today clk) form)"
    using assms by (simp add: form_errors_mem field_results_def required_def validate_booking_date_def)
  moreover have "validate_booking_date (today clk) d = Inl (ValidationError ''Cannot book for past dates'')"
    using assms by (simp add: validate_booking_date_def)
  ultimately show ?thesis
    using inv create_booking_invalid[OF inv] create_booking_never_success_invalid[OF inv]
    by (simp add: create_booking_invalid_staff)
qed

theorem past_date_rejected_witness:
  "booking_date_data (ex_form\<lparr>booking_date_data := Some ex_yesterday\<rparr>) = Some ex_yesterday \<and>
   date_lt ex_yesterday (today ex_clock) \<and>
   load_user (Some 1) ex_db = Some ex_alice \<and> is_staff ex_alice \<and>
   (''booking_date'', ValidationError ''Cannot book for past dates'')
      \<in> set (form_errors (today ex_clock) (ex_form\<lparr>booking_date_data := Some ex_yesterday\<rparr>)) \<and>
   create_booking ex_clock (Some 1) (ex_form\<lparr>booking_date_data := Some ex_yesterday\<rparr>) ex_db =
     (Redirect ''Invalid booking data.'' ''dashboard-danger'' ''staff_dashboard'', ex_db)"
  using past_date_rejected[where form = "ex_form\<lparr>booking_date_data := Some ex_yesterday\<rparr>"
      and d = ex_yesterday and clk = ex_clock and session = "Some 1" and db = ex_db]
  by (simp add: ex_defs model_defs date_lt_def prod_eq_iff)

text \<open>
  Claim C5, as stated, does not hold. On the sample database a valid request is
  inserted under the identifier 4, while \<^verbatim>\<open>Booking.create\<close> returns the row count 1.
  A request that passes validation but names a facility that is not stored inserts
  nothing: the form only requires the hidden field to be filled in.
\<close>

theorem create_returns_identifier_counterexample:
  "load_user (Some 1) ex_db = Some ex_alice \<and> is_staff ex_alice \<and>
   validate_on_submit (today ex_clock) ex_form \<and>
   Booking_create ex_clock 1 1 ex_tomorrow \<lparr>hour = 9, minute = 0\<rparr> \<lparr>hour = 10, minute = 30\<rparr>
       ''Team sync'' ex_db =
     Inr (1, ex_db\<lparr>bookings := [ex_bk1, ex_bk2, ex_bk3,
               \<lparr>booking_id = 4, user_id = 1, facility_id = 1, booking_date = ex_tomorrow,
                 start_time = \<lparr>hour = 9, minute = 0\<rparr>, end_time = \<lparr>hour = 10, minute = 30\<rparr>,
                 status = Pending, purpose = ''Team sync'',
                 created_at = (ex_today, \<lparr>hour = 15, minute = 0\<rparr>)\<rparr>],
             bookings_auto_increment := 5\<rparr>) \<and>
   (1 :: nat) \<noteq> 4 \<and>
   validate_on_submit (today ex_clock) (ex_form\<lparr>facility_id_data := Some 99\<rparr>) \<and>
   create_booking ex_clock (Some 1) (ex_form\<lparr>facility_id_data := Some 99\<rparr>) ex_db =
     (ServerError, ex_db)"
  by (simp add: ex_defs model_defs form_defs Booking_create_def create_booking_def)

text \<open>
  Claim C5, amended. For a logged-in staff user, a form that passes validation and
  a facility id that names a stored facility, \<^verbatim>\<open>create_booking\<close> reports the
  submission and appends exactly one row to the bookings: the row carries the next
  AUTO_INCREMENT value as its key, the user's id, the submitted fields and the status
  pending. All earlier bookings, the users and the facilities are unchanged, the
  declared constraints are preserved and the new key was not in use.
  \<^verbatim>\<open>Booking.create\<close> returns the number of affected rows, which is 1, not the key.
\<close>

theorem create_inserts_one_pending_row_returns_rowcount:
  assumes "load_user session db = Some cu" and "is_staff cu"
    and "validate_on_submit (today clk) form"
    and "facility_id_data form = Some fid"
    and "Facility_get_by_id fid db \<noteq> None"
  shows "\<exists>d s e.
     booking_date_data form = Some d \<and> start_time_data form = Some s \<and>
     end_time_data form = Some e \<and>
     Booking_create clk (usr_id cu) fid d s e (purpose_data form) db =
       Inr (1, snd (create_booking clk session form db)) \<and>
     fst (create_booking clk session form db) =
       Redirect ''Booking request submitted.'' ''dashboard-success'' ''staff_dashboard'' \<and>
     bookings (snd (create_booking clk session form db)) =
       bookings db @
         [\<lparr>booking_id = bookings_auto_increment db, user_id = usr_id cu, facility_id = fid,
           booking_date = d, start_time = s, end_time = e,
           status = Pending, purpose = purpose_data form,
           created_at = (today clk, time_of_day clk)\<rparr>] \<and>
     users (snd (create_booking clk session form db)) = users db \<and>
     facilities (snd (create_booking clk session form db)) = facilities db \<and>
     (wf_db db \<longrightarrow>
        wf_db (snd (create_booking clk session form db)) \<and>
        (\<forall>b \<in> set (bookings db). booking_id b \<noteq> bookings_auto_increment db))"
proof -
  from assms(3) obtain d s e where
    f: "booking_date_data form = Some d" "start_time_data form = Some s"
       "end_time_data form = Some e"
    by (auto simp: validate_on_submit_iff)
  note r = create_booking_valid[OF assms(1-4) f assms(5)]
  have c: "Booking_create clk (usr_id cu) fid d s e (purpose_data form) db =
       Inr (1, snd (create_booking clk session form db))"
    unfolding r snd_conv using load_user_stored[OF assms(1)] assms(5)
    by (intro Booking_create_ok) (simp_all only: Facility_get_by_id_stored)
  have w: "wf_db (snd (create_booking clk session form db))" if "wf_db db"
    using wf_db_Booking_create[OF that c] .
  show ?thesis
    using f c w wf_db_fresh_id[of db] by (simp add: r)
qed

theorem create_inserts_one_pending_row_returns_rowcount_witness:
  "load_user (Some 1) ex_db = Some ex_alice \<and> is_staff ex_alice \<and>
   validate_on_submit (today ex_clock) ex_form \<and>
   facility_id_data ex_form = Some 1 \<and> Facility_get_by_id 1 ex_db \<noteq> None \<and> wf_db ex_db \<and>
   fst (create_booking ex_clock (Some 1) ex_form ex_db) =
     Redirect ''Booking request submitted.'' ''dashboard-success'' ''staff_dashboard'' \<and>
   bookings (snd (create_booking ex_clock (Some 1) ex_form ex_db)) =
     [ex_bk1, ex_bk2, ex_bk3,
      \<lparr>booking_id = 4, user_id = 1, facility_id = 1, booking_date = ex_tomorrow,
        start_time = \<lparr>hour = 9, minute = 0\<rparr>, end_time = \<lparr>hour = 10, minute = 30\<rparr>,
        status = Pending, purpose = ''Team sync'',
        created_at = (ex_today, \<lparr>hour = 15, minute = 0\<rparr>)\<rparr>] \<and>
   wf_db (snd (create_booking ex_clock (Some 1) ex_form ex_db))"
  using create_inserts_one_pending_row_returns_rowcount[where session = "Some 1"
      and db = ex_db and cu = ex_alice and clk = ex_clock and form = ex_form and fid = 1]
  by (simp add: ex_defs model_defs form_defs)

text \<open>
  Claim C6. For an administrator and a stored facility: when some booking of that
  facility is pending or approved, \<^verbatim>\<open>delete_facility\<close> answers with the flashed
  refusal, not with a server failure, and the database, hence the facility row, is
  unchanged; when there is no such booking, it reports the deletion and no facility
  with that key is left, all other facilities being kept.
\<close>

theorem delete_facility_guarded_by_active_bookings:
  assumes "load_user session db = Some cu" and "is_admin cu"
    and "Facility_get_by_id k db = Some f"
  shows "((\<exists>b \<in> set (bookings db).
             facility_id b = k \<and> (status b = Pending \<or> status b = Approved)) \<longrightarrow>
            delete_facility session k db =
              (Redirect ''Cannot delete facility with active or pending bookings.''
                 ''dashboard-danger'' ''facilities_list'', db) \<and>
            Facility_get_by_id k (snd (delete_facility session k db)) = Some f) \<and>
         (\<not> (\<exists>b \<in> set (bookings db).
                facility_id b = k \<and> (status b = Pending \<or> status b = Approved)) \<longrightarrow>
            fst (delete_facility session k db) =
              Redirect ''Facility deleted successfully.'' ''dashboard-success'' ''facilities_list'' \<and>
            Facility_get_by_id k (snd (delete_facility session k db)) = None \<and>
            facilities (snd (delete_facility session k db)) =
              filter (\<lambda>x. fac_id x \<noteq> k) (facilities db))"
proof (intro conjI impI)
  assume "\<exists>b \<in> set (bookings db). facility_id b = k \<and> (status b = Pending \<or> status b = Approved)"
  then have act: "Facility_has_active_bookings k db"
    by (simp add: Facility_has_active_bookings_iff)
  show r: "delete_facility session k db =
        (Redirect ''Cannot delete facility with active or pending bookings.''
           ''dashboard-danger'' ''facilities_list'', db)"
    using assms act by (simp add: delete_facility_admin_found)
  show "Facility_get_by_id k (snd (delete_facility session k db)) = Some f"
    using assms(3) by (simp add: r)
next
  assume "\<not> (\<exists>b \<in> set (bookings db).
               facility_id b = k \<and> (status b = Pending \<or> status b = Approved))"
  then have act: "\<not> Facility_has_active_bookings k db"
    by (simp add: Facility_has_active_bookings_iff)
  have r: "delete_facility session k db =
        (Redirect ''Facility deleted successfully.'' ''dashboard-success'' ''facilities_list'',
         snd (Facility_delete k db))"
    using assms act by (simp add: delete_facility_admin_found)
  show "fst (delete_facility session k db) =
        Redirect ''Facility deleted successfully.'' ''dashboard-success'' ''facilities_list''"
    by (simp add: r)
  show "Facility_get_by_id k (snd (delete_facility session k db)) = None"
    by (simp add: r Facility_delete_def Facility_get_by_id_def find_None_iff)
  show "facilities (snd (delete_facility session k db)) =
          filter (\<lambda>x. fac_id x \<noteq> k) (facilities db)"
    by (simp add: r Facility_delete_def)
qed

theorem delete_facility_guarded_by_active_bookings_witness:
  "load_user (Some 3) ex_db = Some ex_carol \<and> is_admin ex_carol \<and>
   Facility_get_by_id 1 ex_db = Some ex_room_a \<and>
   (\<exists>b \<in> set (bookings ex_db).
      facility_id b = 1 \<and> (status b = Pending \<or> status b = Approved)) \<and>
   delete_facility (Some 3) 1 ex_db =
     (Redirect ''Cannot delete facility with active or pending bookings.''
        ''dashboard-danger'' ''facilities_list'', ex_db) \<and>
   Facility_get_by_id 2 ex_db = Some ex_room_b \<and>
   \<not> (\<exists>b \<in> set (bookings ex_db).
        facility_id b = 2 \<and> (status b = Pending \<or> status b = Approved)) \<and>
   fst (delete_facility (Some 3) 2 ex_db) =
     Redirect ''Facility deleted successfully.'' ''dashboard-success'' ''facilities_list'' \<and>
   Facility_get_by_id 2 (snd (delete_facility (Some 3) 2 ex_db)) = None \<and>
   facilities (snd (delete_facility (Some 3) 2 ex_db)) = [ex_room_a]"
  using delete_facility_guarded_by_active_bookings[where session = "Some 3" and db = ex_db
      and cu = ex_carol and k = 1 and f = ex_room_a]
    delete_facility_guarded_by_active_bookings[where session = "Some 3" and db = ex_db
      and cu = ex_carol and k = 2 and f = ex_room_b]
  by (simp add: ex_defs model_defs)

text \<open>
  Claim C7. Two valid requests of logged-in staff users for the same stored facility
  and the same date whose time windows overlap, processed one after the other, both
  report the submission, and the bookings afterwards are the earlier ones followed by
  the two new rows, both pending. What \<^verbatim>\<open>create_booking\<close> answers does not depend on
  the bookings already stored.
\<close>

theorem overlapping_requests_both_pending:
  assumes "load_user session_a db = Some user_a" and "is_staff user_a"
    and "load_user session_b db = Some user_b" and "is_staff user_b"
    and "validate_on_submit (today clk_a) form_a" and "validate_on_submit (today clk_b) form_b"
    and "facility_id_data form_a = Some fid" and "facility_id_data form_b = Some fid"
    and "Facility_get_by_id fid db \<noteq> None"
    and "booking_date_data form_a = Some d" and "booking_date_data form_b = Some d"
    and "start_time_data form_a = Some start_a" and "end_time_data form_a = Some end_a"
    and "start_time_data form_b = Some start_b" and "end_time_data form_b = Some end_b"
    and "intervals_overlap start_a end_a start_b end_b"
  shows "fst (create_booking clk_a session_a form_a db) =
           Redirect ''Booking request submitted.'' ''dashboard-success'' ''staff_dashboard'' \<and>
         fst (create_booking clk_b session_b form_b (snd (create_booking clk_a session_a form_a db))) =
           Redirect ''Booking request submitted.'' ''dashboard-success'' ''staff_dashboard'' \<and>
         bookings (snd (create_booking clk_b session_b form_b
                     (snd (create_booking clk_a session_a form_a db)))) =
           bookings db @
             [\<lparr>booking_id = bookings_auto_increment db, user_id = usr_id user_a, facility_id = fid,
               booking_date = d, start_time = start_a, end_time = end_a,
               status = Pending, purpose = purpose_data form_a,
               created_at = (today clk_a, time_of_day clk_a)\<rparr>,
              \<lparr>booking_id = Suc (bookings_auto_increment db), user_id = usr_id user_b,
               facility_id = fid,
               booking_date = d, start_time = start_b, end_time = end_b,
               status = Pending, purpose = purpose_data form_b,
               created_at = (today clk_b, time_of_day clk_b)\<rparr>] \<and>
         (\<forall>bs. fst (create_booking clk_b session_b form_b (db\<lparr>bookings := bs\<rparr>)) =
                fst (create_booking clk_b session_b form_b db))"
proof -
  note r1 = create_booking_valid[OF assms(1,2,5,7,10,12,13,9)]
  let ?db_a = "snd (create_booking clk_a session_a form_a db)"
  have u: "load_user session_b ?db_a = Some user_b"
    using assms(3) by (simp add: r1 load_user_same_users)
  have fx: "Facility_get_by_id fid ?db_a \<noteq> None"
    using assms(9) by (simp add: r1 Facility_get_by_id_same_facilities)
  note r2 = create_booking_valid[OF u assms(4,6,8,11,14,15) fx]
  have ind: "fst (create_booking clk_b session_b form_b (db\<lparr>bookings := bs\<rparr>)) =
                fst (create_booking clk_b session_b form_b db)" for bs
  proof -
    have u': "load_user session_b (db\<lparr>bookings := bs\<rparr>) = Some user_b"
      using assms(3) by (simp add: load_user_same_users)
    have f': "Facility_get_by_id fid (db\<lparr>bookings := bs\<rparr>) \<noteq> None"
      using assms(9) by (simp add: Facility_get_by_id_same_facilities)
    show ?thesis
      by (simp add: create_booking_valid[OF u' assms(4,6,8,11,14,15) f']
            create_booking_valid[OF assms(3,4,6,8,11,14,15,9)])
  qed
  have a1: "fst (create_booking clk_a session_a form_a db) =
           Redirect ''Booking request submitted.'' ''dashboard-success'' ''staff_dashboard''"
    by (simp add: r1)
  have a2: "fst (create_booking clk_b session_b form_b ?db_a) =
           Redirect ''Booking request submitted.'' ''dashboard-success'' ''staff_dashboard''"
    by (simp add: r2)
  have a3: "bookings (snd (create_booking clk_b session_b form_b ?db_a)) =
           bookings db @
             [\<lparr>booking_id = bookings_auto_increment db, user_id = usr_id user_a, facility_id = fid,
               booking_date = d, start_time = start_a, end_time = end_a,
               status = Pending, purpose = purpose_data form_a,
               created_at = (today clk_a, time_of_day clk_a)\<rparr>,
              \<lparr>booking_id = Suc (bookings_auto_increment db), user_id = usr_id user_b,
               facility_id = fid,
               booking_date = d, start_time = start_b, end_time = end_b,
               status = Pending, purpose = purpose_data form_b,
               created_at = (today clk_b, time_of_day clk_b)\<rparr>]"
    unfolding r2 by (simp add: r1)
  show ?thesis
    apply (intro conjI allI)
       apply (rule a1)
      apply (rule a2)
     apply (rule a3)
    apply (rule ind)
    done
qed

theorem overlapping_requests_both_pending_witness:
  "load_user (Some 1) ex_db = Some ex_alice \<and> is_staff ex_alice \<and>
   load_user (Some 2) ex_db = Some ex_bob \<and> is_staff ex_bob \<and>
   validate_on_submit (today ex_clock) ex_form \<and>
   validate_on_submit (today ex_clock)
     (ex_form\<lparr>start_time_data := Some \<lparr>hour = 10, minute = 0\<rparr>,
               end_time_data := Some \<lparr>hour = 11, minute = 0\<rparr>\<rparr>) \<and>
   Facility_get_by_id 1 ex_db \<noteq> None \<and>
   intervals_overlap \<lparr>hour = 9, minute = 0\<rparr> \<lparr>hour = 10, minute = 30\<rparr>
     \<lparr>hour = 10, minute = 0\<rparr> \<lparr>hour = 11, minute = 0\<rparr> \<and>
   map status
     (bookings (snd (create_booking ex_clock (Some 2)
        (ex_form\<lparr>start_time_data := Some \<lparr>hour = 10, minute = 0\<rparr>,
                  end_time_data := Some \<lparr>hour = 11, minute = 0\<rparr>\<rparr>)
        (snd (create_booking ex_clock (Some 1) ex_form ex_db))))) =
     [Pending, Approved, Rejected, Pending, Pending]"
  using overlapping_requests_both_pending[where session_a = "Some 1" and db = ex_db
      and user_a = ex_alice and session_b = "Some 2" and user_b = ex_bob
      and clk_a = ex_clock and clk_b = ex_clock and form_a = ex_form
      and form_b = "ex_form\<lparr>start_time_data := Some \<lparr>hour = 10, minute = 0\<rparr>,
                           end_time_data := Some \<lparr>hour = 11, minute = 0\<rparr>\<rparr>"
      and fid = 1 and d = ex_tomorrow
      and start_a = "\<lparr>hour = 9, minute = 0\<rparr>" and end_a = "\<lparr>hour = 10, minute = 30\<rparr>"
      and start_b = "\<lparr>hour = 10, minute = 0\<rparr>" and end_b = "\<lparr>hour = 11, minute = 0\<rparr>"]
  by (simp add: ex_defs model_defs form_defs intervals_overlap_def)

text \<open>
  Claim C8. The model functions return the row count of their UPDATE, and the
  routes do not look at it: for a staff user \<^verbatim>\<open>cancel_booking\<close> always flashes the
  success message, also when no stored booking has the key, the user as owner and the
  status pending, in which case the row count is 0 and the database is unchanged; for
  an administrator \<^verbatim>\<open>approve_booking\<close> and \<^verbatim>\<open>reject_booking\<close> always flash their
  success message, also for a key that no booking has, where the row count is 0 and
  the database is unchanged.
\<close>

theorem zero_rows_reported_as_success:
  "(\<forall>cu. load_user session db = Some cu \<longrightarrow> is_staff cu \<longrightarrow>
      fst (cancel_booking session k db) =
        Redirect ''Booking cancelled successfully.'' ''dashboard-success'' ''my_bookings'' \<and>
      ((\<forall>b \<in> set (bookings db).
          \<not> (booking_id b = k \<and> user_id b = usr_id cu \<and> status b = Pending)) \<longrightarrow>
         fst (Booking_cancel k (usr_id cu) db) = 0 \<and>
         snd (cancel_booking session k db) = db)) \<and>
   (\<forall>cu. load_user session db = Some cu \<longrightarrow> is_admin cu \<longrightarrow>
      fst (approve_booking session k db) =
        Redirect ''Booking approved.'' ''dashboard-success'' ''pending_bookings'' \<and>
      fst (reject_booking session k db) =
        Redirect ''Booking rejected.'' ''dashboard-success'' ''pending_bookings'' \<and>
      (Booking_get_by_id k db = None \<longrightarrow>
         (\<forall>s. fst (Booking_update_status k s db) = 0) \<and>
         snd (approve_booking session k db) = db \<and>
         snd (reject_booking session k db) = db))"
proof (intro conjI allI impI)
  fix cu assume cu: "load_user session db = Some cu" "is_staff cu"
  show "fst (cancel_booking session k db) =
        Redirect ''Booking cancelled successfully.'' ''dashboard-success'' ''my_bookings''"
    using cu by (simp add: cancel_booking_staff)
  assume "\<forall>b \<in> set (bookings db).
          \<not> (booking_id b = k \<and> user_id b = usr_id cu \<and> status b = Pending)"
  then have n: "Booking_cancel k (usr_id cu) db = (0, db)" by (rule Booking_cancel_noop)
  show "fst (Booking_cancel k (usr_id cu) db) = 0" by (simp add: n)
  show "snd (cancel_booking session k db) = db"
    using cu by (simp add: cancel_booking_staff n)
next
  fix cu assume cu: "load_user session db = Some cu" "is_admin cu"
  show "fst (approve_booking session k db) =
        Redirect ''Booking approved.'' ''dashboard-success'' ''pending_bookings''"
    using cu by (simp add: approve_booking_admin)
  show "fst (reject_booking session k db) =
        Redirect ''Booking rejected.'' ''dashboard-success'' ''pending_bookings''"
    using cu by (simp add: reject_booking_admin)
  assume none: "Booking_get_by_id k db = None"
  show "fst (Booking_update_status k s db) = 0" for s
    by (simp add: Booking_update_status_noop[OF none])
  show "snd (approve_booking session k db) = db"
    using cu by (simp add: approve_booking_admin Booking_update_status_noop[OF none])
  show "snd (reject_booking session k db) = db"
    using cu by (simp add: reject_booking_admin Booking_update_status_noop[OF none])
qed

theorem zero_rows_reported_as_success_witness:
  "load_user (Some 2) ex_db = Some ex_bob \<and> is_staff ex_bob \<and>
   \<not> (\<exists>b \<in> set (bookings ex_db).
        booking_id b = 2 \<and> user_id b = usr_id ex_bob \<and> status b = Pending) \<and>
   fst (Booking_cancel 2 (usr_id ex_bob) ex_db) = 0 \<and>
   cancel_booking (Some 2) 2 ex_db =
     (Redirect ''Booking cancelled successfully.'' ''dashboard-success'' ''my_bookings'', ex_db) \<and>
   load_user (Some 3) ex_db = Some ex_carol \<and> is_admin ex_carol \<and>
   Booking_get_by_id 9 ex_db = None \<and>
   fst (Booking_update_status 9 Approved ex_db) = 0 \<and>
   approve_booking (Some 3) 9 ex_db =
     (Redirect ''Booking approved.'' ''dashboard-success'' ''pending_bookings'', ex_db) \<and>
   reject_booking (Some 3) 9 ex_db =
     (Redirect ''Booking rejected.'' ''dashboard-success'' ''pending_bookings'', ex_db)"
  using zero_rows_reported_as_success[where session = "Some 2" and db = ex_db and k = 2]
    zero_rows_reported_as_success[where session = "Some 3" and db = ex_db and k = 9]
  by (simp add: ex_defs model_defs prod_eq_iff)

text \<open>
  Claim C9. The date validator accepts today's date, and validation does not read the
  time of day at all. A form dated today with an admissible time window validates
  whatever the current time is, records no past-date error, and a staff user's request
  for a stored facility is stored as a pending booking, also when the window is already
  over.
\<close>

theorem same_day_booking_accepted_whatever_the_time:
  "validate_booking_date (today clk) (today clk) = Inr () \<and>
   (\<forall>t. validate_on_submit (today (clk\<lparr>time_of_day := t\<rparr>)) form =
         validate_on_submit (today clk) form) \<and>
   (\<forall>s e. booking_date_data form = Some (today clk) \<longrightarrow>
      start_time_data form = Some s \<longrightarrow> end_time_data form = Some e \<longrightarrow>
      validate_end_time (Some s) e = Inr () \<longrightarrow>
      csrf_token_ok form \<longrightarrow> facility_id_data form \<noteq> None \<longrightarrow>
      length (purpose_data form) \<le> 500 \<longrightarrow>
        validate_on_submit (today clk) form \<and>
        (''booking_date'', ValidationError ''Cannot book for past dates'')
           \<notin> set (form_errors (today clk) form) \<and>
        (\<forall>cu fid. load_user session db = Some cu \<longrightarrow> is_staff cu \<longrightarrow>
           facility_id_data form = Some fid \<longrightarrow> Facility_get_by_id fid db \<noteq> None \<longrightarrow>
           create_booking clk session form db =
             (Redirect ''Booking request submitted.'' ''dashboard-success'' ''staff_dashboard'',
              db\<lparr>bookings := bookings db @
                   [\<lparr>booking_id = bookings_auto_increment db, user_id = usr_id cu,
                     facility_id = fid, booking_date = today clk,
                     start_time = s, end_time = e,
                     status = Pending, purpose = purpose_data form,
                     created_at = (today clk, time_of_day clk)\<rparr>],
                 bookings_auto_increment := Suc (bookings_auto_increment db)\<rparr>)))"
proof (intro conjI allI impI)
  show "validate_booking_date (today clk) (today clk) = Inr ()"
    by (simp add: validate_booking_date_def date_lt_irrefl)
  show "validate_on_submit (today (clk\<lparr>time_of_day := t\<rparr>)) form =
         validate_on_submit (today clk) form" for t
    by simp
next
  fix s e
  assume f: "booking_date_data form = Some (today clk)"
      "start_time_data form = Some s" "end_time_data form = Some e"
    and ok: "validate_end_time (Some s) e = Inr ()" "csrf_token_ok form"
      "facility_id_data form \<noteq> None" "length (purpose_data form) \<le> 500"
  show v: "validate_on_submit (today clk) form"
    using f ok by (simp add: validate_on_submit_iff date_lt_irrefl)
  show "(''booking_date'', ValidationError ''Cannot book for past dates'')
           \<notin> set (form_errors (today clk) form)"
    using v by (simp add: validate_on_submit_def)
  fix cu fid
  assume "load_user session db = Some cu" "is_staff cu"
    "facility_id_data form = Some fid" "Facility_get_by_id fid db \<noteq> None"
  then show "create_booking clk session form db =
             (Redirect ''Booking request submitted.'' ''dashboard-success'' ''staff_dashboard'',
              db\<lparr>bookings := bookings db @
                   [\<lparr>booking_id = bookings_auto_increment db, user_id = usr_id cu,
                     facility_id = fid, booking_date = today clk,
                     start_time = s, end_time = e,
                     status = Pending, purpose = purpose_data form,
                     created_at = (today clk, time_of_day clk)\<rparr>],
                 bookings_auto_increment := Suc (bookings_auto_increment db)\<rparr>)"
    using v f by (intro create_booking_valid) simp_all
qed

text \<open>
  At 15:00 a booking for the same day from 09:00 to 10:30 is accepted.
\<close>

theorem same_day_booking_accepted_whatever_the_time_witness:
  "booking_date_data (ex_form\<lparr>booking_date_data := Some ex_today\<rparr>) = Some (today ex_clock) \<and>
   time_lt \<lparr>hour = 10, minute = 30\<rparr> (time_of_day ex_clock) \<and>
   validate_end_time (Some \<lparr>hour = 9, minute = 0\<rparr>) \<lparr>hour = 10, minute = 30\<rparr> = Inr () \<and>
   load_user (Some 1) ex_db = Some ex_alice \<and> is_staff ex_alice \<and>
   Facility_get_by_id 1 ex_db \<noteq> None \<and>
   validate_on_submit (today ex_clock) (ex_form\<lparr>booking_date_data := Some ex_today\<rparr>) \<and>
   fst (create_booking ex_clock (Some 1) (ex_form\<lparr>booking_date_data := Some ex_today\<rparr>) ex_db) =
     Redirect ''Booking request submitted.'' ''dashboard-success'' ''staff_dashboard''"
  using same_day_booking_accepted_whatever_the_time[where clk = ex_clock
      and form = "ex_form\<lparr>booking_date_data := Some ex_today\<rparr>"
      and session = "Some 1" and db = ex_db]
  by (simp add: ex_defs model_defs form_defs)

text \<open>
  Claim C10. When an administrator deletes a stored facility that has no pending or
  approved booking, the bookings left are exactly those of the other facilities: a
  stored booking is removed if and only if it refers to the deleted facility, and every
  such booking is rejected or cancelled. No booking is added, the other facilities are
  kept as they were, and the users are unchanged.
\<close>

theorem delete_facility_cascades_to_inactive_bookings:
  assumes "load_user session db = Some cu" and "is_admin cu"
    and "Facility_get_by_id k db = Some f"
    and "\<not> Facility_has_active_bookings k db"
  shows "bookings (snd (delete_facility session k db)) =
           filter (\<lambda>b. facility_id b \<noteq> k) (bookings db) \<and>
         (\<forall>b \<in> set (bookings db).
            (b \<notin> set (bookings (snd (delete_facility session k db))) \<longleftrightarrow> facility_id b = k) \<and>
            (facility_id b = k \<longrightarrow> status b = Rejected \<or> status b = Cancelled)) \<and>
         set (bookings (snd (delete_facility session k db))) \<subseteq> set (bookings db) \<and>
         facilities (snd (delete_facility session k db)) =
           filter (\<lambda>x. fac_id x \<noteq> k) (facilities db) \<and>
         users (snd (delete_facility session k db)) = users db"
proof -
  have r: "snd (delete_facility session k db) = snd (Facility_delete k db)"
    using assms by (simp add: delete_facility_admin_found)
  have st: "status b = Rejected \<or> status b = Cancelled"
    if "b \<in> set (bookings db)" "facility_id b = k" for b
    using that assms(4) not_active_status[of "status b"]
    by (auto simp: Facility_has_active_bookings_iff)
  show ?thesis
    using st by (auto simp: r Facility_delete_def)
qed

text \<open>
  Deleting the second facility of the sample database removes the rejected booking 3
  with it.
\<close>

theorem delete_facility_cascades_to_inactive_bookings_witness:
  "load_user (Some 3) ex_db = Some ex_carol \<and> is_admin ex_carol \<and>
   Facility_get_by_id 2 ex_db = Some ex_room_b \<and>
   \<not> Facility_has_active_bookings 2 ex_db \<and>
   ex_bk3 \<in> set (bookings ex_db) \<and> facility_id ex_bk3 = 2 \<and> status ex_bk3 = Rejected \<and>
   ex_bk3 \<notin> set (bookings (snd (delete_facility (Some 3) 2 ex_db))) \<and>
   bookings (snd (delete_facility (Some 3) 2 ex_db)) = [ex_bk1, ex_bk2] \<and>
   users (snd (delete_facility (Some 3) 2 ex_db)) = users ex_db"
  using delete_facility_cascades_to_inactive_bookings[where session = "Some 3" and db = ex_db
      and cu = ex_carol and k = 2 and f = ex_room_b]
  by (simp add: ex_defs model_defs)

end
